theory Spec2Isabelle
  imports Complex_Main "HOL-Library.Word" "HOL-Library.AList"
begin

section \<open>The mesh node application of node_prov.py\<close>

text \<open>
  The module keeps its state in globals (\<open>token\<close>, \<open>have_token\<close>, \<open>attached\<close>,
  \<open>node\<close>, \<open>scanned\<close>, \<open>app\<close>, ...) and in objects that reference each other
  (models own \<open>ModTimer\<close>s, a \<open>ModTimer\<close> references the \<open>threading.Timer\<close> it
  created last, a \<open>Timer\<close> calls back into its \<open>ModTimer\<close>).  The model passes one
  record \<open>world\<close> through every function; objects live in stores addressed by their
  position, and a procedure returns the exception it raised, if any, with the world it
  left behind.
\<close>

subsection \<open>Exceptions and references\<close>

datatype exc =
    AttributeError
  | ValueError
  | IndexError
  | TypeError
  | OverflowError
  | FileNotFoundError

type_synonym ref = nat

subsection \<open>Python strings\<close>

text \<open>
  A Python \<open>str\<close> is modelled by a HOL \<open>string\<close> whose characters are the code points
  below 256; \<open>len\<close> is \<open>length\<close>.
\<close>

definition ord :: "char \<Rightarrow> nat" where
  "ord c = of_char c"

text \<open>\<open>Py_ISSPACE\<close>: space, tab, newline, vertical tab, form feed, carriage return.\<close>

definition Py_ISSPACE :: "char \<Rightarrow> bool" where
  "Py_ISSPACE c = (ord c = 32 \<or> (9 \<le> ord c \<and> ord c \<le> 13))"

text \<open>
  \<open>_PyLong_DigitValue\<close> for base 16: the value of a character that is a digit of
  base 16, \<open>None\<close> for every other character.
\<close>

definition digit16 :: "char \<Rightarrow> int option" where
  "digit16 c =
     (if 48 \<le> ord c \<and> ord c \<le> 57 then Some (int (ord c) - 48)
      else if 97 \<le> ord c \<and> ord c \<le> 102 then Some (int (ord c) - 87)
      else if 65 \<le> ord c \<and> ord c \<le> 70 then Some (int (ord c) - 55)
      else None)"

text \<open>
  \<open>int(s, 16)\<close> first rewrites a string that is not pure ASCII
  (\<open>_PyUnicode_TransformDecimalAndSpaceToASCII\<close>): a non-ASCII white space becomes a
  blank, a non-ASCII decimal digit its ASCII digit, and the text is cut after a \<open>?\<close> put
  for the first other non-ASCII character.  Below 256 the non-ASCII white spaces are
  U+0085 and U+00A0 and there is no non-ASCII decimal digit.
\<close>

fun transform_ascii :: "string \<Rightarrow> string" where
  "transform_ascii [] = []"
| "transform_ascii (c # cs) =
     (if ord c < 127 then c # transform_ascii cs
      else if ord c = 133 \<or> ord c = 160 then CHR '' '' # transform_ascii cs
      else [CHR ''?''])"

definition to_ascii :: "string \<Rightarrow> string" where
  "to_ascii s = (if list_all (\<lambda>c. ord c < 128) s then s else transform_ascii s)"

text \<open>
  The digit loop of \<open>long_from_binary_base\<close>: digits of base 16 with single
  underscores between them.  \<open>prev\<close> is the character read last, \<open>acc\<close> the value so
  far and \<open>n\<close> the number of digits read; the result carries the unread rest.  Two
  underscores in a row and an underscore at the end are errors.
\<close>

fun long_from_binary_base :: "char \<Rightarrow> int \<Rightarrow> nat \<Rightarrow> string \<Rightarrow> (int \<times> nat \<times> string) option" where
  "long_from_binary_base prev acc n [] =
     (if prev = CHR ''_'' then None else Some (acc, n, []))"
| "long_from_binary_base prev acc n (c # cs) =
     (if c = CHR ''_'' then
        (if prev = CHR ''_'' then None else long_from_binary_base c acc n cs)
      else
        (case digit16 c of
           Some d \<Rightarrow> long_from_binary_base c (acc * 16 + d) (Suc n) cs
         | None \<Rightarrow> (if prev = CHR ''_'' then None else Some (acc, n, c # cs))))"

text \<open>An optional sign: whether it was \<open>-\<close>, and the rest.\<close>

fun skip_sign :: "string \<Rightarrow> bool \<times> string" where
  "skip_sign [] = (False, [])"
| "skip_sign (c # cs) =
     (if c = CHR ''+'' then (False, cs)
      else if c = CHR ''-'' then (True, cs)
      else (False, c # cs))"

text \<open>The prefix \<open>0x\<close> or \<open>0X\<close> of base 16, and the one underscore allowed after it.\<close>

fun skip_prefix16 :: "string \<Rightarrow> string" where
  "skip_prefix16 (c0 # c1 # cs) =
     (if c0 = CHR ''0'' \<and> (c1 = CHR ''x'' \<or> c1 = CHR ''X'') then
        (case cs of
           [] \<Rightarrow> []
         | d # ds \<Rightarrow> if d = CHR ''_'' then ds else d # ds)
      else c0 # c1 # cs)"
| "skip_prefix16 s = s"

text \<open>
  \<open>PyLong_FromString(s, 16)\<close>, as \<open>int(s, 16)\<close> runs it: leading white space, sign,
  prefix, digits, trailing white space, and nothing else.  \<open>None\<close> is \<open>ValueError\<close>.
\<close>

definition py_int16 :: "string \<Rightarrow> int option" where
  "py_int16 s =
     (let (neg, s1) = skip_sign (dropWhile Py_ISSPACE (to_ascii s));
          s2 = skip_prefix16 s1
      in if s2 \<noteq> [] \<and> hd s2 = CHR ''_'' then None
         else
           (case long_from_binary_base (CHR 0x00) 0 0 s2 of
              None \<Rightarrow> None
            | Some (v, n, rest) \<Rightarrow>
                if n = 0 then None
                else if dropWhile Py_ISSPACE rest \<noteq> [] then None
                else Some (if neg then - v else v)))"

text \<open>
  \<open>numpy.uint64(n)\<close> for a Python int \<open>n\<close>.  A value outside \<open>0 .. 2^64 - 1\<close> wraps
  around in NumPy 1 and raises \<open>OverflowError\<close> from NumPy 2 on; \<open>strict\<close> says which
  NumPy is installed.
\<close>

definition numpy_uint64 :: "bool \<Rightarrow> int \<Rightarrow> exc + 64 word" where
  "numpy_uint64 strict n =
     (if strict \<and> (n < 0 \<or> 2 ^ 64 \<le> n) then Inl OverflowError else Inr (word_of_int n))"

text \<open>\<open>str.split(' ')\<close>: the pieces between single blanks, empty pieces included.\<close>

fun split_blank :: "string \<Rightarrow> string list" where
  "split_blank [] = [[]]"
| "split_blank (c # cs) =
     (if c = CHR '' '' then [] # split_blank cs
      else (case split_blank cs of
              [] \<Rightarrow> [[c]]
            | t # ts \<Rightarrow> (c # t) # ts))"

text \<open>\<open>sub in s\<close> for strings: \<open>sub\<close> occurs in \<open>s\<close> as a contiguous piece.\<close>

fun contains :: "string \<Rightarrow> string \<Rightarrow> bool" where
  "contains sub [] = (sub = [])"
| "contains sub (c # cs) = (take (length sub) (c # cs) = sub \<or> contains sub cs)"

text \<open>\<open>xs[i]\<close> for an index \<open>i \<ge> 0\<close>: \<open>IndexError\<close> when out of range.\<close>

definition item :: "'a list \<Rightarrow> nat \<Rightarrow> exc + 'a" where
  "item xs i = (if i < length xs then Inr (xs ! i) else Inl IndexError)"


text \<open>\<open>format(i, '02x')\<close>: lower-case hexadecimal, padded with zeros to two characters.\<close>

definition hex_char :: "nat \<Rightarrow> char" where
  "hex_char n = ''0123456789abcdef'' ! n"

fun hex_digits :: "nat \<Rightarrow> string" where
  "hex_digits n =
     (if n < 16 then [hex_char n] else hex_digits (n div 16) @ [hex_char (n mod 16)])"

definition format_02x :: "int \<Rightarrow> string" where
  "format_02x i =
     (if i < 0 then CHR ''-'' # hex_digits (nat (- i))
      else if i < 16 then CHR ''0'' # hex_digits (nat i)
      else hex_digits (nat i))"

subsection \<open>Objects\<close>

text \<open>
  \<open>BoundPublish m\<close> is the bound method \<open>self.publish\<close> of the model at \<open>m\<close>, the only
  callback the program hands to a \<open>ModTimer\<close>.
\<close>

datatype callback = BoundPublish ref

text \<open>Class \<open>ModTimer\<close>; \<open>thread\<close> references a \<open>threading.Timer\<close>.\<close>

record ModTimer =
  seconds :: "rat option"
  func :: "callback option"
  thread :: "ref option"
  busy :: bool

text \<open>
  A \<open>threading.Timer\<close> that has been started: \<open>target\<close> is the \<open>ModTimer\<close> whose
  \<open>_timeout_cb\<close> it calls, \<open>finished\<close> its event of that name (set by \<open>cancel()\<close> and
  at the end of \<open>run\<close>), \<open>waiting\<close> whether its thread still sits in
  \<open>finished.wait(interval)\<close>, and \<open>due\<close> whether its thread has found \<open>finished\<close>
  unset after the wait and has not yet called the function.
\<close>

record Timer =
  interval :: "rat option"
  target :: ref
  finished :: bool
  waiting :: bool
  due :: bool

text \<open>A timer will fire when it still waits and has not been cancelled.\<close>

definition armed :: "Timer \<Rightarrow> bool" where
  "armed t = (waiting t \<and> \<not> finished t)"

text \<open>
  The \<open>state\<close> of a \<open>MyVendor\<close>: the int it starts with, or the bytes
  \<open>json.dumps(scanned).encode('utf-8')\<close>, kept as the dictionary they encode.
\<close>

datatype vstate = StateInt int | StateJson "(string \<times> string) list"

text \<open>The attributes \<open>MyVendor.__init__\<close> adds to those of \<open>Model\<close>.\<close>

record MyVendor =
  state :: vstate
  pub_timer :: ref
  t_timer :: ref

text \<open>
  Class \<open>Model\<close>; \<open>my_vendor\<close> is \<open>None\<close> for an instance of \<open>Model\<close> itself and
  holds the added attributes for an instance of the subclass \<open>MyVendor\<close>.
\<close>

record Model =
  cmd_ops :: "int list"
  model_id :: int
  vendor :: int
  bindings :: "int list"
  pub_period :: int
  pub_id :: int
  path :: "string option"
  timer :: "ref option"
  my_vendor :: "MyVendor option"

text \<open>Class \<open>Element\<close>; \<open>models\<close> references models in registration order.\<close>

record Element =
  el_path :: string
  models :: "ref list"
  index :: int

text \<open>A destination is a 16-bit address or a label; so is a subscription.\<close>

datatype dest = DestAddr int | DestLabel "8 word list"

datatype sub = SubAddr int | SubLabel "8 word list"

text \<open>
  A model configuration after \<open>unwrap\<close>: the three keys \<open>set_config\<close> reads, each
  present or not.
\<close>

record config =
  Bindings :: "int list option"
  PublicationPeriod :: "int option"
  Subscriptions :: "sub list option"

text \<open>
  What the program does to its collaborators, in order: a call of \<open>process_message\<close>
  on a model (with the arguments \<open>source\<close>, \<open>dest\<close>, \<open>key\<close>, \<open>data\<close>), and a
  \<open>node.Publish\<close> with the element path, the model id and the state packed into the
  payload.
\<close>

datatype event =
    ProcessMessage ref int dest int "8 word list"
  | Publish "string option" int vstate

subsection \<open>The world\<close>

text \<open>
  The module's globals, the object stores, and the environment the code reads: the
  lines of \<open>scan.txt\<close> (\<open>None\<close> when the file cannot be opened) and the NumPy in use.
  \<open>elements\<close> is \<open>app.elements\<close>; \<open>quit_called\<close> records \<open>mainloop.quit()\<close>.
\<close>

record world =
  token :: "64 word option"
  have_token :: bool
  attached :: bool
  input_error :: bool
  node :: "string option"
  node_mgr :: "string option"
  scanned :: "(string \<times> string) list"
  elements :: "Element list"
  model_store :: "Model list"
  modtimer_store :: "ModTimer list"
  timer_store :: "Timer list"
  scan_txt :: "string list option"
  numpy_strict :: bool
  quit_called :: bool
  calls :: "event list"

text \<open>A procedure returns the exception it raised, if any, and the world it left.\<close>

type_synonym outcome = "exc option \<times> world"

definition and_then :: "outcome \<Rightarrow> (world \<Rightarrow> outcome) \<Rightarrow> outcome" where
  "and_then r f = (case r of (None, w) \<Rightarrow> f w | (Some e, w) \<Rightarrow> (Some e, w))"

definition model :: "world \<Rightarrow> ref \<Rightarrow> Model" where
  "model w m = model_store w ! m"

definition upd_model :: "ref \<Rightarrow> (Model \<Rightarrow> Model) \<Rightarrow> world \<Rightarrow> world" where
  "upd_model m f w = w\<lparr>model_store := (model_store w)[m := f (model_store w ! m)]\<rparr>"

definition modtimer :: "world \<Rightarrow> ref \<Rightarrow> ModTimer" where
  "modtimer w r = modtimer_store w ! r"

definition upd_modtimer :: "ref \<Rightarrow> (ModTimer \<Rightarrow> ModTimer) \<Rightarrow> world \<Rightarrow> world" where
  "upd_modtimer r f w = w\<lparr>modtimer_store := (modtimer_store w)[r := f (modtimer_store w ! r)]\<rparr>"

definition upd_timer :: "ref \<Rightarrow> (Timer \<Rightarrow> Timer) \<Rightarrow> world \<Rightarrow> world" where
  "upd_timer t f w = w\<lparr>timer_store := (timer_store w)[t := f (timer_store w ! t)]\<rparr>"

text \<open>The armed timers that call back into the \<open>ModTimer\<close> at \<open>r\<close>, oldest first.\<close>

definition armed_timers :: "ref \<Rightarrow> world \<Rightarrow> ref list" where
  "armed_timers r w =
     filter (\<lambda>t. armed (timer_store w ! t) \<and> target (timer_store w ! t) = r)
       [0 ..< length (timer_store w)]"

subsection \<open>Module functions on the token\<close>

definition raise_error :: "world \<Rightarrow> world" where
  "raise_error w = w\<lparr>input_error := True\<rparr>"

definition set_token :: "string \<Rightarrow> world \<Rightarrow> outcome" where
  "set_token str_value w =
     (if length str_value \<noteq> 16 then (None, raise_error w)
      else
        (case py_int16 str_value of
           None \<Rightarrow> (None, raise_error w)
         | Some input_number \<Rightarrow>
             (case numpy_uint64 (numpy_strict w) input_number of
                Inl e \<Rightarrow> (Some e, w)
              | Inr t \<Rightarrow> (None, w\<lparr>token := Some t, have_token := True\<rparr>))))"

definition remove_node_cb :: "world \<Rightarrow> world" where
  "remove_node_cb w = w\<lparr>attached := False, have_token := False\<rparr>"

definition JoinComplete :: "64 word \<Rightarrow> world \<Rightarrow> world" where
  "JoinComplete v w = w\<lparr>token := Some v, have_token := True\<rparr>"

subsection \<open>ModTimer\<close>

definition ModTimer_init :: ModTimer where
  "ModTimer_init = \<lparr>seconds = None, func = None, thread = None, busy = False\<rparr>"

text \<open>\<open>_schedule_timer\<close>: a new \<open>Timer\<close> is created, referenced by \<open>thread\<close>, and started.\<close>

definition schedule_timer :: "ref \<Rightarrow> world \<Rightarrow> world" where
  "schedule_timer r w =
     (let t = length (timer_store w);
          w1 = w\<lparr>timer_store := timer_store w @
                 [\<lparr>interval = seconds (modtimer w r), target = r,
                   finished = False, waiting = True, due = False\<rparr>]\<rparr>
      in upd_modtimer r (\<lambda>mt. mt\<lparr>thread := Some t\<rparr>) w1)"

definition start :: "ref \<Rightarrow> rat \<Rightarrow> callback \<Rightarrow> world \<Rightarrow> world" where
  "start r secs f w =
     (let w1 = upd_modtimer r (\<lambda>mt. mt\<lparr>func := Some f\<rparr>) w;
          w2 = upd_modtimer r (\<lambda>mt. mt\<lparr>seconds := Some secs\<rparr>) w1
      in if \<not> busy (modtimer w2 r) then schedule_timer r w2 else w2)"

definition cancel :: "ref \<Rightarrow> world \<Rightarrow> world" where
  "cancel r w =
     (case thread (modtimer w r) of
        None \<Rightarrow> w
      | Some t \<Rightarrow>
          upd_modtimer r (\<lambda>mt. mt\<lparr>thread := None\<rparr>)
            (upd_timer t (\<lambda>tm. tm\<lparr>finished := True\<rparr>) w))"

subsection \<open>Model and MyVendor\<close>

definition VENDOR_ID_NONE :: int where
  "VENDOR_ID_NONE = 0xffff"

definition Model_init :: "int \<Rightarrow> Model" where
  "Model_init mid =
     \<lparr>cmd_ops = [], model_id = mid, vendor = VENDOR_ID_NONE, bindings = [],
      pub_period = 0, pub_id = 0, path = None, timer = None, my_vendor = None\<rparr>"

text \<open>
  \<open>MyVendor.__init__\<close>: the new model and its two new \<open>ModTimer\<close>s are put into the
  stores; the result is the reference to the model.
\<close>

definition MyVendor_init :: "int \<Rightarrow> world \<Rightarrow> ref \<times> world" where
  "MyVendor_init mid w =
     (let p = length (modtimer_store w);
          md = (Model_init mid)
                 \<lparr>vendor := 0x05F1,
                  cmd_ops := [0x8201, 0x8202, 0x8203, 0x8204],
                  my_vendor := Some \<lparr>state = StateInt 0, pub_timer = p, t_timer = Suc p\<rparr>\<rparr>
      in (length (model_store w),
          w\<lparr>modtimer_store := modtimer_store w @ [ModTimer_init, ModTimer_init],
            model_store := model_store w @ [md]\<rparr>))"

definition send_publication :: "ref \<Rightarrow> vstate \<Rightarrow> world \<Rightarrow> outcome" where
  "send_publication m data w =
     (case node w of
        None \<Rightarrow> (Some AttributeError, w)
      | Some n \<Rightarrow>
          (None, w\<lparr>calls := calls w @ [Publish (path (model w m)) (model_id (model w m)) data]\<rparr>))"

text \<open>
  \<open>MyVendor.publish\<close>: \<open>len(self.state)\<close> raises \<open>TypeError\<close> while the state is
  still the int of \<open>__init__\<close>; an instance of \<open>Model\<close> itself has no \<open>publish\<close>.
\<close>

definition publish :: "ref \<Rightarrow> world \<Rightarrow> outcome" where
  "publish m w =
     (case my_vendor (model w m) of
        None \<Rightarrow> (Some AttributeError, w)
      | Some v \<Rightarrow>
          (case state v of
             StateInt i \<Rightarrow> (Some TypeError, w)
           | StateJson d \<Rightarrow> send_publication m (StateJson d) w))"

text \<open>
  \<open>ModTimer._timeout_cb\<close>: the callback runs first; what follows it runs only when
  the callback returns.
\<close>

definition timeout_cb :: "ref \<Rightarrow> world \<Rightarrow> outcome" where
  "timeout_cb r w =
     (case func (modtimer w r) of
        None \<Rightarrow> (Some TypeError, w)
      | Some (BoundPublish m) \<Rightarrow>
          and_then (publish m w)
            (\<lambda>w1. let w2 = upd_modtimer r (\<lambda>mt. mt\<lparr>busy := True\<rparr>) w1;
                      w3 = schedule_timer r w2
                  in (None, upd_modtimer r (\<lambda>mt. mt\<lparr>busy := False\<rparr>) w3)))"

text \<open>
  \<open>threading.Timer.run\<close> once the wait is over: the function is called unless the
  timer was cancelled, and \<open>finished\<close> is set when the function has returned.
\<close>

definition Timer_run :: "ref \<Rightarrow> world \<Rightarrow> outcome" where
  "Timer_run t w =
     (let tm = timer_store w ! t
      in if \<not> waiting tm then (None, w)
         else
           (let w1 = upd_timer t (\<lambda>x. x\<lparr>waiting := False\<rparr>) w
            in if finished tm then (None, w1)
               else and_then (timeout_cb (target tm) w1)
                      (\<lambda>w2. (None, upd_timer t (\<lambda>x. x\<lparr>finished := True\<rparr>) w2))))"

text \<open>
  The same \<open>run\<close> in the two steps another thread can come between.  \<open>Timer_wake\<close>:
  the wait ends and \<open>finished.is_set()\<close> is read.  \<open>Timer_call\<close>: a timer that found
  \<open>finished\<close> unset calls the function, whatever \<open>finished\<close> is by then, and sets
  \<open>finished\<close> when the function has returned.
\<close>

definition Timer_wake :: "ref \<Rightarrow> world \<Rightarrow> world" where
  "Timer_wake t w =
     (let tm = timer_store w ! t
      in if \<not> waiting tm then w
         else upd_timer t (\<lambda>x. x\<lparr>waiting := False, due := \<not> finished tm\<rparr>) w)"

definition Timer_call :: "ref \<Rightarrow> world \<Rightarrow> outcome" where
  "Timer_call t w =
     (let tm = timer_store w ! t
      in if \<not> due tm then (None, w)
         else
           (let w1 = upd_timer t (\<lambda>x. x\<lparr>due := False\<rparr>) w
            in and_then (timeout_cb (target tm) w1)
                 (\<lambda>w2. (None, upd_timer t (\<lambda>x. x\<lparr>finished := True\<rparr>) w2))))"


text \<open>\<open>Model.set_publication\<close> only stores the period.\<close>

definition Model_set_publication :: "ref \<Rightarrow> int \<Rightarrow> world \<Rightarrow> outcome" where
  "Model_set_publication m period w = (None, upd_model m (\<lambda>md. md\<lparr>pub_period := period\<rparr>) w)"

text \<open>
  The inner loop of \<open>MyVendor.set_publication\<close>, run for a \<open>[NEW]\<close> line whose fourth
  word is \<open>undefined\<close>: every \<open>[CHG]\<close> line with the same third word stores its fourth
  word, less the last character, under the key of \<open>line\<close>.  \<open>x[0:-1]\<close> is \<open>butlast x\<close>.
\<close>

fun scan_chg :: "string \<Rightarrow> string list \<Rightarrow> (string \<times> string) list
    \<Rightarrow> exc option \<times> (string \<times> string) list" where
  "scan_chg line [] sc = (None, sc)"
| "scan_chg line (test # tests) sc =
     (if contains ''[CHG]'' test then
        (case item (split_blank test) 2 of
           Inl e \<Rightarrow> (Some e, sc)
         | Inr t2 \<Rightarrow>
             (case item (split_blank line) 2 of
                Inl e \<Rightarrow> (Some e, sc)
              | Inr l2 \<Rightarrow>
                  if t2 = l2 then
                    (case item (split_blank test) 3 of
                       Inl e \<Rightarrow> (Some e, sc)
                     | Inr t3 \<Rightarrow>
                         (case item (split_blank line) 4 of
                            Inl e \<Rightarrow> (Some e, sc)
                          | Inr l4 \<Rightarrow>
                              scan_chg line tests (AList.update (butlast l4) (butlast t3) sc)))
                  else scan_chg line tests sc))
      else scan_chg line tests sc)"

text \<open>
  The outer loop over the lines of \<open>scan.txt\<close>; \<open>lines\<close> is the whole file, which the
  inner loop walks again.  \<open>scanned\<close> is a dictionary in insertion order.
\<close>

fun scan_new :: "string list \<Rightarrow> string list \<Rightarrow> (string \<times> string) list
    \<Rightarrow> exc option \<times> (string \<times> string) list" where
  "scan_new lines [] sc = (None, sc)"
| "scan_new lines (line # rest) sc =
     (if contains ''[NEW]'' line then
        (case item (split_blank line) 3 of
           Inl e \<Rightarrow> (Some e, sc)
         | Inr l3 \<Rightarrow>
             if l3 \<noteq> ''undefined'' then
               (case item (split_blank line) 4 of
                  Inl e \<Rightarrow> (Some e, sc)
                | Inr l4 \<Rightarrow> scan_new lines rest (AList.update (butlast l4) l3 sc))
             else
               (case scan_chg line lines sc of
                  (Some e, sc') \<Rightarrow> (Some e, sc')
                | (None, sc') \<Rightarrow> scan_new lines rest sc'))
      else scan_new lines rest sc)"

text \<open>\<open>MyVendor.set_publication\<close>; \<open>v\<close> holds the attributes of the subclass.\<close>

definition MyVendor_set_publication :: "ref \<Rightarrow> MyVendor \<Rightarrow> int \<Rightarrow> world \<Rightarrow> outcome" where
  "MyVendor_set_publication m v period w =
     (let w1 = upd_model m (\<lambda>md. md\<lparr>pub_period := period\<rparr>) w
      in if period = 0 then (None, cancel (pub_timer v) w1)
         else if period < 1000 then (None, w1)
         else
           (case scan_txt w1 of
              None \<Rightarrow> (Some FileNotFoundError, w1)
            | Some lines \<Rightarrow>
                if length lines = 0 then (None, w1\<lparr>quit_called := True\<rparr>)
                else
                  (case scan_new lines lines (scanned w1) of
                     (Some e, sc) \<Rightarrow> (Some e, w1\<lparr>scanned := sc\<rparr>)
                   | (None, sc) \<Rightarrow>
                       (let w2 = w1\<lparr>scanned := sc\<rparr>
                        in if length sc = 0 then (None, w2\<lparr>quit_called := True\<rparr>)
                           else
                             (let w3 = upd_model m
                                    (\<lambda>md. md\<lparr>my_vendor := Some (v\<lparr>state := StateJson sc\<rparr>)\<rparr>) w2
                              in (None, start (pub_timer v) (of_int period / 1000)
                                          (BoundPublish m) w3))))))"

text \<open>The method the call \<open>self.set_publication(period)\<close> reaches.\<close>

definition set_publication :: "ref \<Rightarrow> int \<Rightarrow> world \<Rightarrow> outcome" where
  "set_publication m period w =
     (case my_vendor (model w m) of
        None \<Rightarrow> Model_set_publication m period w
      | Some v \<Rightarrow> MyVendor_set_publication m v period w)"

text \<open>
  \<open>print_subscriptions\<close> prints; \<open>uuid.UUID(bytes=...)\<close> raises \<open>ValueError\<close> for a
  label that is not 16 bytes long.
\<close>

fun print_subscriptions :: "sub list \<Rightarrow> exc option" where
  "print_subscriptions [] = None"
| "print_subscriptions (SubAddr a # subs) = print_subscriptions subs"
| "print_subscriptions (SubLabel l # subs) =
     (if length l \<noteq> 16 then Some ValueError else print_subscriptions subs)"

definition set_config :: "ref \<Rightarrow> config \<Rightarrow> world \<Rightarrow> outcome" where
  "set_config m cfg w =
     (let w1 = (case Bindings cfg of
                  None \<Rightarrow> w
                | Some b \<Rightarrow> upd_model m (\<lambda>md. md\<lparr>bindings := b\<rparr>) w)
      in and_then
           (case PublicationPeriod cfg of
              None \<Rightarrow> (None, w1)
            | Some period \<Rightarrow> set_publication m period w1)
           (\<lambda>w2. case Subscriptions cfg of
                    None \<Rightarrow> (None, w2)
                  | Some subs \<Rightarrow> (print_subscriptions subs, w2)))"

text \<open>
  \<open>Model.process_message\<close> returns at once and \<open>MyVendor.process_message\<close> prints and
  returns; the call itself is recorded.
\<close>

definition Model_process_message :: "ref \<Rightarrow> int \<Rightarrow> dest \<Rightarrow> int \<Rightarrow> 8 word list \<Rightarrow> world \<Rightarrow> world" where
  "Model_process_message m source dst key data w =
     w\<lparr>calls := calls w @ [ProcessMessage m source dst key data]\<rparr>"

definition MyVendor_process_message :: "ref \<Rightarrow> int \<Rightarrow> dest \<Rightarrow> int \<Rightarrow> 8 word list \<Rightarrow> world \<Rightarrow> world" where
  "MyVendor_process_message m source dst key data w =
     w\<lparr>calls := calls w @ [ProcessMessage m source dst key data]\<rparr>"

definition process_message :: "ref \<Rightarrow> int \<Rightarrow> dest \<Rightarrow> int \<Rightarrow> 8 word list \<Rightarrow> world \<Rightarrow> world" where
  "process_message m source dst key data w =
     (case my_vendor (model w m) of
        None \<Rightarrow> Model_process_message m source dst key data w
      | Some v \<Rightarrow> MyVendor_process_message m source dst key data w)"

subsection \<open>Element\<close>

definition PATH_BASE :: string where
  "PATH_BASE = ''/example/ele''"

definition Element_init :: "int \<Rightarrow> Element" where
  "Element_init idx = \<lparr>el_path = PATH_BASE @ format_02x idx, models = [], index = idx\<rparr>"

definition add_model :: "Element \<Rightarrow> ref \<Rightarrow> world \<Rightarrow> Element \<times> world" where
  "add_model el m w =
     (el\<lparr>models := models el @ [m]\<rparr>,
      upd_model m (\<lambda>md. md\<lparr>path := Some (el_path el)\<rparr>) w)"

text \<open>\<open>update_model_config\<close>: the first model with the id gets the configuration.\<close>

fun update_models :: "ref list \<Rightarrow> int \<Rightarrow> config \<Rightarrow> world \<Rightarrow> outcome" where
  "update_models [] mid cfg w = (None, w)"
| "update_models (m # ms) mid cfg w =
     (if mid = model_id (model w m) then set_config m cfg w
      else update_models ms mid cfg w)"

definition update_model_config :: "Element \<Rightarrow> int \<Rightarrow> config \<Rightarrow> world \<Rightarrow> outcome" where
  "update_model_config el mid cfg w = update_models (models el) mid cfg w"

fun set_model_config :: "Element \<Rightarrow> (int \<times> config) list \<Rightarrow> world \<Rightarrow> outcome" where
  "set_model_config el [] w = (None, w)"
| "set_model_config el (c # configs) w =
     and_then (update_model_config el (fst c) (snd c) w) (set_model_config el configs)"

definition UpdateModelConfiguration :: "Element \<Rightarrow> int \<Rightarrow> config \<Rightarrow> world \<Rightarrow> outcome" where
  "UpdateModelConfiguration el mid cfg w = update_model_config el mid cfg w"

text \<open>The loop of \<open>MessageReceived\<close> over \<open>self.models\<close>; what precedes it prints.\<close>

fun deliver :: "ref list \<Rightarrow> int \<Rightarrow> int \<Rightarrow> dest \<Rightarrow> 8 word list \<Rightarrow> world \<Rightarrow> world" where
  "deliver [] source key dst data w = w"
| "deliver (m # ms) source key dst data w =
     deliver ms source key dst data (process_message m source dst key data w)"

definition MessageReceived :: "Element \<Rightarrow> int \<Rightarrow> int \<Rightarrow> dest \<Rightarrow> 8 word list \<Rightarrow> world \<Rightarrow> world" where
  "MessageReceived el source key dst data w = deliver (models el) source key dst data w"

subsection \<open>Application\<close>

definition add_element :: "Element \<Rightarrow> world \<Rightarrow> world" where
  "add_element el w = w\<lparr>elements := elements w @ [el]\<rparr>"

text \<open>\<open>get_element\<close> falls off its loop, returning \<open>None\<close>, when no index matches.\<close>

fun find_element :: "Element list \<Rightarrow> int \<Rightarrow> Element option" where
  "find_element [] idx = None"
| "find_element (ele # eles) idx = (if index ele = idx then Some ele else find_element eles idx)"

definition get_element :: "int \<Rightarrow> world \<Rightarrow> Element option" where
  "get_element idx w = find_element (elements w) idx"

text \<open>
  The loop of \<open>attach_app_cb\<close>.  An entry is the index byte and the model
  configurations; \<open>struct.unpack('b', ...)\<close> reads the byte as signed.  Calling
  \<open>set_model_config\<close> on the \<open>None\<close> of \<open>get_element\<close> raises \<open>AttributeError\<close>.
\<close>

fun attach_els :: "(8 word \<times> (int \<times> config) list) list \<Rightarrow> world \<Rightarrow> outcome" where
  "attach_els [] w = (None, w)"
| "attach_els (el # els) w =
     (let idx = sint (fst el);
          mods = snd el
      in case get_element idx w of
           None \<Rightarrow> (Some AttributeError, w)
         | Some element \<Rightarrow> and_then (set_model_config element mods w) (attach_els els))"

definition attach_app_cb :: "string \<Rightarrow> (8 word \<times> (int \<times> config) list) list \<Rightarrow> world \<Rightarrow> outcome" where
  "attach_app_cb node_path dict_array w =
     (let w1 = w\<lparr>attached := True\<rparr>;
          w2 = w1\<lparr>node_mgr := Some node_path\<rparr>;
          w3 = w2\<lparr>node := Some node_path\<rparr>
      in attach_els dict_array w3)"

text \<open>\<open>app_exit\<close>: the attribute it looks at is \<open>model.timer\<close>.\<close>

fun exit_models :: "ref list \<Rightarrow> world \<Rightarrow> world" where
  "exit_models [] w = w"
| "exit_models (m # ms) w =
     exit_models ms (case timer (model w m) of None \<Rightarrow> w | Some r \<Rightarrow> cancel r w)"

fun exit_elements :: "Element list \<Rightarrow> world \<Rightarrow> world" where
  "exit_elements [] w = w"
| "exit_elements (el # els) w = exit_elements els (exit_models (models el) w)"

definition app_exit :: "world \<Rightarrow> world" where
  "app_exit w = (exit_elements (elements w) w)\<lparr>quit_called := True\<rparr>"

subsection \<open>Start of the program\<close>

text \<open>
  The globals as the module sets them when it is loaded, in an environment with the
  given \<open>scan.txt\<close> and NumPy.
\<close>

definition initial :: "string list option \<Rightarrow> bool \<Rightarrow> world" where
  "initial scan strict =
     \<lparr>token = None, have_token = False, attached = False, input_error = False,
      node = None, node_mgr = None, scanned = [], elements = [],
      model_store = [], modtimer_store = [], timer_store = [],
      scan_txt = scan, numpy_strict = strict, quit_called = False, calls = []\<rparr>"

text \<open>
  \<open>main\<close> up to the creation of the main loop: the token of the command line, if
  there is one, then element 0 with one \<open>MyVendor(0x0001)\<close>.
\<close>

definition main_init :: "string option \<Rightarrow> world \<Rightarrow> outcome" where
  "main_init arg w =
     and_then (case arg of None \<Rightarrow> (None, w) | Some a \<Rightarrow> set_token a w)
       (\<lambda>w1. let first_ele = Element_init 0x00;
                 (m, w2) = MyVendor_init 0x0001 w1;
                 (first_ele', w3) = add_model first_ele m w2
             in (None, add_element first_ele' w3))"


subsection \<open>Worlds the program reaches\<close>

text \<open>A \<open>scan.txt\<close> with one device.\<close>

definition scan_example :: "string list" where
  "scan_example = [''[NEW] Device AA:BB:CC:DD:EE:FF -60 sensor\<newline>'']"

text \<open>The world when \<open>main\<close>, started without a token, has built the application.\<close>

definition booted :: world where
  "booted = snd (main_init None (initial (Some scan_example) False))"

text \<open>The element \<open>main\<close> registers, as \<open>booted\<close> holds it.\<close>

definition first_ele :: Element where
  "first_ele = \<lparr>el_path = ''/example/ele00'', models = [0], index = 0\<rparr>"

definition cfg_2000 :: config where
  "cfg_2000 = \<lparr>Bindings = Some [0], PublicationPeriod = Some 2000, Subscriptions = Some []\<rparr>"


definition node0 :: string where
  "node0 = ''/org/bluez/mesh/node0''"

text \<open>
  After an attach whose reply configures model 1 of element 0 with a period of
  2000 ms: the publication timer of the model is armed.
\<close>

definition publishing :: world where
  "publishing = snd (attach_app_cb node0 [(0, [(1, cfg_2000)])] booted)"

text \<open>
  The same configuration delivered through \<open>UpdateModelConfiguration\<close> while no node
  is attached: the timer is armed and \<open>node\<close> is still \<open>None\<close>.
\<close>

definition publishing_detached :: world where
  "publishing_detached = snd (UpdateModelConfiguration first_ele 1 cfg_2000 booted)"

text \<open>A node that joined with a token and was then removed.\<close>

definition removed :: world where
  "removed = remove_node_cb (JoinComplete 0x1122334455667788 booted)"

text \<open>A second configuration with a period of 2000 ms reaches the model while it publishes.\<close>

definition publishing_twice :: world where
  "publishing_twice = snd (UpdateModelConfiguration first_ele 1 cfg_2000 publishing)"

text \<open>
  The publication timer has left its wait and found \<open>finished\<close> unset; its callback
  has not run yet.
\<close>

definition ticking :: world where
  "ticking = Timer_wake 0 publishing"


text \<open>The fields of the node's life cycle that the timers and models never touch.\<close>

definition lifecycle :: "world \<Rightarrow> 64 word option \<times> bool \<times> bool" where
  "lifecycle w = (token w, have_token w, attached w)"

text \<open>A world with other values in the three fields of the life cycle.\<close>

definition stamp :: "64 word option \<Rightarrow> bool \<Rightarrow> bool \<Rightarrow> world \<Rightarrow> world" where
  "stamp t h a w = w\<lparr>token := t, have_token := h, attached := a\<rparr>"

text \<open>An outcome whose world has those values.\<close>

definition stamped :: "64 word option \<Rightarrow> bool \<Rightarrow> bool \<Rightarrow> outcome \<Rightarrow> outcome" where
  "stamped t h a r = (fst r, stamp t h a (snd r))"

section \<open>Properties\<close>

subsection \<open>The stores\<close>

lemma timer_store_upd [simp]:
  "timer_store (upd_model m f w) = timer_store w"
  "timer_store (upd_modtimer r g w) = timer_store w"
  "timer_store (upd_timer t h w) = (timer_store w)[t := h (timer_store w ! t)]"
  by (simp_all add: upd_model_def upd_modtimer_def upd_timer_def)

lemma modtimer_store_upd [simp]:
  "modtimer_store (upd_model m f w) = modtimer_store w"
  "modtimer_store (upd_modtimer r g w) = (modtimer_store w)[r := g (modtimer_store w ! r)]"
  "modtimer_store (upd_timer t h w) = modtimer_store w"
  by (simp_all add: upd_model_def upd_modtimer_def upd_timer_def)

lemma model_store_upd [simp]:
  "model_store (upd_model m f w) = (model_store w)[m := f (model_store w ! m)]"
  "model_store (upd_modtimer r g w) = model_store w"
  "model_store (upd_timer t h w) = model_store w"
  by (simp_all add: upd_model_def upd_modtimer_def upd_timer_def)

lemma modtimer_upd [simp]:
  "modtimer (upd_model m f w) r = modtimer w r"
  "modtimer (upd_timer t h w) r = modtimer w r"
  "modtimer (w\<lparr>scanned := sc\<rparr>) r = modtimer w r"
  "modtimer (w\<lparr>timer_store := ts\<rparr>) r = modtimer w r"
  by (simp_all add: modtimer_def)

lemma modtimer_upd_modtimer [simp]:
  "modtimer (upd_modtimer r g w) r' =
     (if r' = r \<and> r < length (modtimer_store w) then g (modtimer w r) else modtimer w r')"
  by (cases "r < length (modtimer_store w)") (simp_all add: modtimer_def nth_list_update list_update_beyond)

lemma model_upd [simp]:
  "model (upd_modtimer r g w) m = model w m"
  "model (upd_timer t h w) m = model w m"
  "model (w\<lparr>scanned := sc\<rparr>) m = model w m"
  "model (w\<lparr>timer_store := ts\<rparr>) m = model w m"
  by (simp_all add: model_def)

lemma model_upd_model [simp]:
  "model (upd_model m f w) m' =
     (if m' = m \<and> m < length (model_store w) then f (model w m) else model w m')"
  by (cases "m < length (model_store w)") (simp_all add: model_def nth_list_update list_update_beyond)

lemma armed_timers_same:
  "timer_store w' = timer_store w \<Longrightarrow> armed_timers r w' = armed_timers r w"
  by (simp add: armed_timers_def)

lemma armed_timers_snoc:
  assumes "timer_store w' = timer_store w @ [tm]"
  shows "armed_timers r w' =
     armed_timers r w @ (if armed tm \<and> target tm = r then [length (timer_store w)] else [])"
proof -
  have "filter (\<lambda>t. armed ((timer_store w @ [tm]) ! t) \<and> target ((timer_store w @ [tm]) ! t) = r)
          [0 ..< length (timer_store w)]
        = filter (\<lambda>t. armed (timer_store w ! t) \<and> target (timer_store w ! t) = r)
          [0 ..< length (timer_store w)]"
    by (rule filter_cong) (simp_all add: nth_append)
  then show ?thesis
    using assms by (simp add: armed_timers_def)
qed

lemma timer_store_schedule_timer:
  "timer_store (schedule_timer r w) = timer_store w @
     [\<lparr>interval = seconds (modtimer w r), target = r, finished = False, waiting = True, due = False\<rparr>]"
  by (simp add: schedule_timer_def Let_def)

lemma armed_timers_schedule_timer:
  "armed_timers r (schedule_timer r w) = armed_timers r w @ [length (timer_store w)]"
  by (simp add: armed_timers_snoc [OF timer_store_schedule_timer] armed_def)

lemma modtimer_schedule_timer:
  "modtimer (schedule_timer r w) r' =
     (if r' = r \<and> r < length (modtimer_store w)
      then (modtimer w r)\<lparr>thread := Some (length (timer_store w))\<rparr> else modtimer w r')"
  by (simp add: schedule_timer_def Let_def)

lemma env_upd_model [simp]:
  "scan_txt (upd_model m f w) = scan_txt w"
  "scanned (upd_model m f w) = scanned w"
  "node (upd_model m f w) = node w"
  "calls (upd_model m f w) = calls w"
  by (simp_all add: upd_model_def)

lemma env_upd_timer [simp]:
  "node (upd_timer t h w) = node w"
  "calls (upd_timer t h w) = calls w"
  by (simp_all add: upd_timer_def)

subsection \<open>Timers\<close>

lemma start_unfold:
  assumes "\<not> busy (modtimer w r)"
  shows "start r s f w =
     schedule_timer r (upd_modtimer r (\<lambda>mt. mt\<lparr>seconds := Some s\<rparr>)
       (upd_modtimer r (\<lambda>mt. mt\<lparr>func := Some f\<rparr>) w))"
  using assms by (simp add: start_def Let_def)

lemma start_not_busy:
  assumes "\<not> busy (modtimer w r)"
  shows "armed_timers r (start r s f w) = armed_timers r w @ [length (timer_store w)]"
    and "length (timer_store (start r s f w)) = Suc (length (timer_store w))"
    and "\<not> busy (modtimer (start r s f w) r)"
    and "r < length (modtimer_store w) \<Longrightarrow>
           thread (modtimer (start r s f w) r) = Some (length (timer_store w))"
    and "length (modtimer_store (start r s f w)) = length (modtimer_store w)"
proof -
  let ?w2 = "upd_modtimer r (\<lambda>mt. mt\<lparr>seconds := Some s\<rparr>)
       (upd_modtimer r (\<lambda>mt. mt\<lparr>func := Some f\<rparr>) w)"
  have e: "start r s f w = schedule_timer r ?w2"
    by (rule start_unfold [OF assms])
  have t2: "timer_store ?w2 = timer_store w"
    by simp
  have a2: "armed_timers r ?w2 = armed_timers r w"
    by (rule armed_timers_same [OF t2])
  show "armed_timers r (start r s f w) = armed_timers r w @ [length (timer_store w)]"
    unfolding e armed_timers_schedule_timer a2 t2 ..
  show "length (timer_store (start r s f w)) = Suc (length (timer_store w))"
    unfolding e timer_store_schedule_timer t2 by simp
  show "\<not> busy (modtimer (start r s f w) r)"
    unfolding e modtimer_schedule_timer using assms by simp
  show "thread (modtimer (start r s f w) r) = Some (length (timer_store w))"
    if "r < length (modtimer_store w)"
    unfolding e modtimer_schedule_timer t2 using that by simp
  show "length (modtimer_store (start r s f w)) = length (modtimer_store w)"
    unfolding e by (simp add: schedule_timer_def Let_def)
qed

lemma start_busy:
  assumes "busy (modtimer w r)"
  shows "timer_store (start r s f w) = timer_store w"
  using assms by (simp add: start_def Let_def)






subsection \<open>The life cycle is untouched by models and timers\<close>

lemma lifecycle_upd [simp]:
  "lifecycle (upd_model m f w) = lifecycle w"
  "lifecycle (upd_modtimer r g w) = lifecycle w"
  "lifecycle (upd_timer t h w) = lifecycle w"
  by (simp_all add: lifecycle_def upd_model_def upd_modtimer_def upd_timer_def)

lemma lifecycle_schedule_timer [simp]: "lifecycle (schedule_timer r w) = lifecycle w"
  by (simp add: schedule_timer_def Let_def) (simp add: lifecycle_def)

lemma lifecycle_start [simp]: "lifecycle (start r s f w) = lifecycle w"
  by (simp add: start_def Let_def)

lemma lifecycle_cancel [simp]: "lifecycle (cancel r w) = lifecycle w"
  by (simp add: cancel_def split: option.splits)

lemma lifecycle_fields [simp]:
  "lifecycle (w\<lparr>quit_called := q\<rparr>) = lifecycle w"
  "lifecycle (w\<lparr>scanned := sc\<rparr>) = lifecycle w"
  by (simp_all add: lifecycle_def)

lemma lifecycle_set_publication: "lifecycle (snd (set_publication m p w)) = lifecycle w"
  by (simp add: set_publication_def Model_set_publication_def MyVendor_set_publication_def Let_def
      split: option.splits prod.splits)

lemma lifecycle_set_config: "lifecycle (snd (set_config m cfg w)) = lifecycle w"
proof -
  define w1 where "w1 = (case Bindings cfg of None \<Rightarrow> w
     | Some b \<Rightarrow> upd_model m (\<lambda>md. md\<lparr>bindings := b\<rparr>) w)"
  define r where "r = (case PublicationPeriod cfg of None \<Rightarrow> (None, w1)
     | Some period \<Rightarrow> set_publication m period w1)"
  have a: "lifecycle w1 = lifecycle w"
    by (simp add: w1_def split: option.splits)
  have b: "lifecycle (snd r) = lifecycle w1"
    by (simp add: r_def lifecycle_set_publication split: option.splits)
  have c: "set_config m cfg w = and_then r (\<lambda>w2. case Subscriptions cfg of
                    None \<Rightarrow> (None, w2)
                  | Some subs \<Rightarrow> (print_subscriptions subs, w2))"
    unfolding set_config_def Let_def w1_def r_def ..
  show ?thesis
    using a b unfolding c
    by (cases r) (auto simp: and_then_def split: option.splits)
qed

lemma lifecycle_update_models: "lifecycle (snd (update_models ms mid cfg w)) = lifecycle w"
  by (induction ms) (simp_all add: lifecycle_set_config)

lemma lifecycle_set_model_config: "lifecycle (snd (set_model_config el cfgs w)) = lifecycle w"
proof (induction cfgs arbitrary: w)
  case Nil
  show ?case by simp
next
  case (Cons c cfgs)
  have u: "lifecycle (snd (update_model_config el (fst c) (snd c) w)) = lifecycle w"
    by (simp add: update_model_config_def lifecycle_update_models)
  show ?case
  proof (cases "update_model_config el (fst c) (snd c) w")
    case (Pair x w')
    with u Cons.IH [of w'] show ?thesis
      by (cases x) (simp_all add: and_then_def)
  qed
qed

lemma lifecycle_attach_els: "lifecycle (snd (attach_els els w)) = lifecycle w"
proof (induction els arbitrary: w)
  case Nil
  show ?case by simp
next
  case (Cons el els)
  show ?case
  proof (cases "get_element (sint (fst el)) w")
    case None
    then show ?thesis by (simp add: Let_def)
  next
    case (Some element)
    show ?thesis
    proof (cases "set_model_config element (snd el) w")
      case (Pair x w')
      with lifecycle_set_model_config [of element "snd el" w] Cons.IH [of w'] Some
      show ?thesis by (cases x) (simp_all add: Let_def and_then_def)
    qed
  qed
qed

subsection \<open>The worlds, evaluated\<close>

lemma booted_value [code]:
  "booted =
   \<lparr>token = None, have_token = False, attached = False, input_error = False,
    node = None, node_mgr = None, scanned = [],
    elements = [\<lparr>el_path = ''/example/ele00'', models = [0], index = 0\<rparr>],
    model_store =
      [\<lparr>cmd_ops = [33281, 33282, 33283, 33284], model_id = 1, vendor = 1521,
          bindings = [], pub_period = 0, pub_id = 0,
          path = Some ''/example/ele00'', timer = None,
          my_vendor = Some \<lparr>state = StateInt 0, pub_timer = 0, t_timer = 1\<rparr>\<rparr>],
    modtimer_store =
      [\<lparr>seconds = None, func = None, thread = None, busy = False\<rparr>,
       \<lparr>seconds = None, func = None, thread = None, busy = False\<rparr>],
    timer_store = [],
    scan_txt = Some scan_example,
    numpy_strict = False, quit_called = False, calls = []\<rparr>"
  by code_simp

lemma publishing_value [code]:
  "publishing =
   \<lparr>token = None, have_token = False, attached = True, input_error = False,
    node = Some ''/org/bluez/mesh/node0'',
    node_mgr = Some ''/org/bluez/mesh/node0'',
    scanned = [(''sensor'', ''-60'')],
    elements = [\<lparr>el_path = ''/example/ele00'', models = [0], index = 0\<rparr>],
    model_store =
      [\<lparr>cmd_ops = [33281, 33282, 33283, 33284], model_id = 1, vendor = 1521,
          bindings = [0], pub_period = 2000, pub_id = 0,
          path = Some ''/example/ele00'', timer = None,
          my_vendor =
            Some \<lparr>state = StateJson [(''sensor'', ''-60'')], pub_timer = 0, t_timer = 1\<rparr>\<rparr>],
    modtimer_store =
      [\<lparr>seconds = Some 2, func = Some (BoundPublish 0), thread = Some 0, busy = False\<rparr>,
       \<lparr>seconds = None, func = None, thread = None, busy = False\<rparr>],
    timer_store =
      [\<lparr>interval = Some 2, target = 0, finished = False, waiting = True, due = False\<rparr>],
    scan_txt = Some scan_example,
    numpy_strict = False, quit_called = False, calls = []\<rparr>"
  by code_simp

lemma publishing_twice_value [code]:
  "publishing_twice =
   \<lparr>token = None, have_token = False, attached = True, input_error = False,
    node = Some ''/org/bluez/mesh/node0'',
    node_mgr = Some ''/org/bluez/mesh/node0'',
    scanned = [(''sensor'', ''-60'')],
    elements = [\<lparr>el_path = ''/example/ele00'', models = [0], index = 0\<rparr>],
    model_store =
      [\<lparr>cmd_ops = [33281, 33282, 33283, 33284], model_id = 1, vendor = 1521,
          bindings = [0], pub_period = 2000, pub_id = 0,
          path = Some ''/example/ele00'', timer = None,
          my_vendor =
            Some \<lparr>state = StateJson [(''sensor'', ''-60'')], pub_timer = 0, t_timer = 1\<rparr>\<rparr>],
    modtimer_store =
      [\<lparr>seconds = Some 2, func = Some (BoundPublish 0), thread = Some 1, busy = False\<rparr>,
       \<lparr>seconds = None, func = None, thread = None, busy = False\<rparr>],
    timer_store =
      [\<lparr>interval = Some 2, target = 0, finished = False, waiting = True, due = False\<rparr>,
       \<lparr>interval = Some 2, target = 0, finished = False, waiting = True, due = False\<rparr>],
    scan_txt = Some scan_example,
    numpy_strict = False, quit_called = False, calls = []\<rparr>"
  by code_simp

lemma publishing_detached_value [code]:
  "publishing_detached =
   \<lparr>token = None, have_token = False, attached = False, input_error = False,
    node = None, node_mgr = None, scanned = [(''sensor'', ''-60'')],
    elements = [\<lparr>el_path = ''/example/ele00'', models = [0], index = 0\<rparr>],
    model_store =
      [\<lparr>cmd_ops = [33281, 33282, 33283, 33284], model_id = 1, vendor = 1521,
          bindings = [0], pub_period = 2000, pub_id = 0,
          path = Some ''/example/ele00'', timer = None,
          my_vendor =
            Some \<lparr>state = StateJson [(''sensor'', ''-60'')], pub_timer = 0, t_timer = 1\<rparr>\<rparr>],
    modtimer_store =
      [\<lparr>seconds = Some 2, func = Some (BoundPublish 0), thread = Some 0, busy = False\<rparr>,
       \<lparr>seconds = None, func = None, thread = None, busy = False\<rparr>],
    timer_store =
      [\<lparr>interval = Some 2, target = 0, finished = False, waiting = True, due = False\<rparr>],
    scan_txt = Some scan_example,
    numpy_strict = False, quit_called = False, calls = []\<rparr>"
  by code_simp

subsection \<open>Message dispatch\<close>

lemma deliver_calls:
  "calls (deliver ms source key dst data w) =
     calls w @ map (\<lambda>m. ProcessMessage m source dst key data) ms"
  by (induction ms arbitrary: w)
     (simp_all add: process_message_def Model_process_message_def
        MyVendor_process_message_def split: option.splits)

text \<open>
  Claim C9.  \<open>MessageReceived\<close> on an element calls \<open>process_message\<close> once on every
  model registered on the element, in registration order, each with the source,
  destination, key and data of the message: the calls it adds to the history are
  exactly one per entry of \<open>models\<close>, in that order.
\<close>

theorem MessageReceived_reaches_every_model:
  "calls (MessageReceived el source key dst data w) =
     calls w @ map (\<lambda>m. ProcessMessage m source dst key data) (models el)"
  by (simp add: MessageReceived_def deliver_calls)

subsection \<open>The token\<close>

text \<open>
  Claim C10.  A call of \<open>set_token\<close> with a string that fails the validation (its
  length is not 16, or \<open>int(str_value, 16)\<close> raises \<open>ValueError\<close>) returns after
  \<open>raise_error\<close>: whatever \<open>token\<close> and \<open>have_token\<close> were before, also a valid
  token stored earlier, both are what they were, and only \<open>input_error\<close> is set.
\<close>

theorem set_token_failure_is_atomic:
  assumes "length s \<noteq> 16 \<or> py_int16 s = None"
  shows "set_token s w = (None, w\<lparr>input_error := True\<rparr>)
    \<and> token (snd (set_token s w)) = token w
    \<and> have_token (snd (set_token s w)) = have_token w"
  using assms by (auto simp: set_token_def raise_error_def)

theorem set_token_failure_is_atomic_witness:
  "py_int16 ''0123456789abcdeg'' = None
   \<and> token (snd (set_token ''0123456789abcdeg'' (JoinComplete 0x1122334455667788 booted)))
       = Some 0x1122334455667788
   \<and> have_token (snd (set_token ''0123456789abcdeg'' (JoinComplete 0x1122334455667788 booted)))"
proof -
  have h: "py_int16 ''0123456789abcdeg'' = None"
    by code_simp
  have j: "token (JoinComplete 0x1122334455667788 booted) = Some 0x1122334455667788"
    "have_token (JoinComplete 0x1122334455667788 booted)"
    by (simp_all add: JoinComplete_def)
  from set_token_failure_is_atomic [OF disjI2, OF h, of "JoinComplete 0x1122334455667788 booted"] h j
  show ?thesis by simp
qed

text \<open>
  Claim C4.  The header of the program asks for a token of 16 hexadecimal digits, and
  \<open>set_token\<close> rejects every string whose length is not 16.  A string of 16 characters
  is left to \<open>int(str_value, 16)\<close>, which also reads a prefix \<open>0x\<close>: the string
  \<open>0x00000000000001\<close> has 16 characters, one of them the letter \<open>x\<close>, and
  \<open>set_token\<close> stores the token 1 and sets \<open>have_token\<close>, with no error.
\<close>

theorem set_token_accepts_prefixed_string:
  "length ''0x00000000000001'' = 16 \<and>
   set_token ''0x00000000000001'' (initial None False) =
     (None, (initial None False)\<lparr>token := Some 1, have_token := True\<rparr>)"
  by code_simp

subsection \<open>Configuration after attach\<close>

lemma attach_els_unknown_element:
  assumes "get_element (sint (fst el)) w = None"
  shows "attach_els (el # els) w = (Some AttributeError, w)"
  using assms by (simp add: Let_def)

text \<open>
  Claim C2.  In the world \<open>main\<close> builds there is element 0 only.  An attach reply
  whose first entry names element 1 makes \<open>attach_app_cb\<close> raise \<open>AttributeError\<close>
  (the \<open>None\<close> of \<open>get_element\<close> has no \<open>set_model_config\<close>): the entry is not skipped,
  and the entry for element 0 that follows it is never applied.
\<close>

theorem attach_app_cb_unknown_element_raises:
  "attach_app_cb node0 [(1, []), (0, [(1, cfg_2000)])] booted =
     (Some AttributeError, booted\<lparr>attached := True, node_mgr := Some node0, node := Some node0\<rparr>)"
  by code_simp

subsection \<open>Shutdown\<close>

lemma exit_models_without_timer:
  assumes "\<forall>m \<in> set ms. timer (model w m) = None"
  shows "exit_models ms w = w"
  using assms by (induction ms) simp_all

lemma exit_elements_without_timer:
  assumes "\<forall>el \<in> set els. \<forall>m \<in> set (models el). timer (model w m) = None"
  shows "exit_elements els w = w"
  using assms by (induction els) (simp_all add: exit_models_without_timer)

lemma app_exit_without_timer:
  assumes "\<forall>el \<in> set (elements w). \<forall>m \<in> set (models el). timer (model w m) = None"
  shows "app_exit w = w\<lparr>quit_called := True\<rparr>"
  using assms by (simp add: app_exit_def exit_elements_without_timer)

text \<open>
  Claim C3.  With the publication timer of the vendor model armed, \<open>app_exit\<close> quits
  the main loop and cancels nothing: it looks at \<open>model.timer\<close>, which is \<open>None\<close> in
  every model, while the timers of a \<open>MyVendor\<close> are \<open>pub_timer\<close> and \<open>t_timer\<close>.  The
  timer that was armed before \<open>app_exit\<close> is armed after it.
\<close>

theorem app_exit_leaves_pub_timer_armed:
  "armed_timers 0 publishing = [0] \<and>
   armed_timers 0 (app_exit publishing) = [0] \<and>
   timer_store (app_exit publishing) = timer_store publishing \<and>
   quit_called (app_exit publishing)"
  by code_simp


subsection \<open>Starting a scheduler twice\<close>

text \<open>
  Claim C1, as the code has it.  \<open>start\<close> looks at \<open>busy\<close> only, not at a timer
  armed earlier.  On a \<open>ModTimer\<close> that is not busy, two calls of \<open>start\<close> in
  succession arm two timers: both stay armed next to those armed before, and
  \<open>thread\<close> references the second.  While \<open>busy\<close> is set, \<open>start\<close> creates no timer.
\<close>

theorem start_twice_arms_two_timers:
  assumes "r < length (modtimer_store w)"
  shows "(\<not> busy (modtimer w r) \<longrightarrow>
            armed_timers r (start r s2 f2 (start r s1 f1 w)) =
              armed_timers r w @ [length (timer_store w), Suc (length (timer_store w))]
          \<and> thread (modtimer (start r s2 f2 (start r s1 f1 w)) r) =
              Some (Suc (length (timer_store w))))
       \<and> (busy (modtimer w r) \<longrightarrow> timer_store (start r s1 f1 w) = timer_store w)"
proof (intro conjI impI)
  assume nb: "\<not> busy (modtimer w r)"
  let ?w1 = "start r s1 f1 w"
  have nb1: "\<not> busy (modtimer ?w1 r)"
    and l1: "length (timer_store ?w1) = Suc (length (timer_store w))"
    and a1: "armed_timers r ?w1 = armed_timers r w @ [length (timer_store w)]"
    and r1: "r < length (modtimer_store ?w1)"
    using start_not_busy [OF nb] assms by simp_all
  show "armed_timers r (start r s2 f2 ?w1) =
      armed_timers r w @ [length (timer_store w), Suc (length (timer_store w))]"
    using start_not_busy(1) [OF nb1, of s2 f2] a1 l1 by simp
  show "thread (modtimer (start r s2 f2 ?w1) r) = Some (Suc (length (timer_store w)))"
    using start_not_busy(4) [OF nb1 r1, of s2 f2] l1 by simp
next
  assume "busy (modtimer w r)"
  then show "timer_store (start r s1 f1 w) = timer_store w"
    by (rule start_busy)
qed

theorem start_twice_arms_two_timers_witness:
  "armed_timers 0 (start 0 2 (BoundPublish 0) (start 0 2 (BoundPublish 0) booted)) = [0, 1]
   \<and> thread (modtimer (start 0 2 (BoundPublish 0) (start 0 2 (BoundPublish 0) booted)) 0) = Some 1
   \<and> timer_store (start 0 2 (BoundPublish 0)
        (upd_modtimer 0 (\<lambda>mt. mt\<lparr>busy := True\<rparr>) publishing)) = timer_store publishing"
proof -
  have h: "0 < length (modtimer_store booted)" "\<not> busy (modtimer booted 0)"
    "armed_timers 0 booted = []" "length (timer_store booted) = 0"
    by code_simp+
  have k: "0 < length (modtimer_store (upd_modtimer 0 (\<lambda>mt. mt\<lparr>busy := True\<rparr>) publishing))"
    "busy (modtimer (upd_modtimer 0 (\<lambda>mt. mt\<lparr>busy := True\<rparr>) publishing) 0)"
    "timer_store (upd_modtimer 0 (\<lambda>mt. mt\<lparr>busy := True\<rparr>) publishing) = timer_store publishing"
    by code_simp+
  from start_twice_arms_two_timers [OF h(1), of 2 "BoundPublish 0" 2 "BoundPublish 0"]
       start_twice_arms_two_timers [OF k(1), of 2 "BoundPublish 0" 2 "BoundPublish 0"] h k
  show ?thesis by simp
qed

text \<open>
  Claim C1 as the specification states it fails: two calls of \<open>start\<close> on the fresh
  publication timer leave two armed timers, not one; a second configuration with a
  period of 2000 ms does the same through \<open>set_publication\<close>, and when both timers
  fire the callback publishes twice in the period.
\<close>

theorem start_twice_counterexample:
  "armed_timers 0 (start 0 2 (BoundPublish 0) (start 0 2 (BoundPublish 0) booted)) = [0, 1]
   \<and> armed_timers 0 publishing = [0]
   \<and> armed_timers 0 publishing_twice = [0, 1]
   \<and> calls (snd (Timer_run 1 (snd (Timer_run 0 publishing_twice)))) =
       [Publish (Some ''/example/ele00'') 1 (StateJson [(''sensor'', ''-60'')]),
        Publish (Some ''/example/ele00'') 1 (StateJson [(''sensor'', ''-60'')])]"
  by code_simp

subsection \<open>A callback that raises\<close>





subsection \<open>Attach and remove\<close>

text \<open>
  Claim C5 as the specification states it fails: for a node that joined and was
  removed, an attach reply that arrives afterwards sets \<open>attached\<close>, stores the
  period of 2000 ms in the model and arms its publication timer.
\<close>

theorem attach_after_remove_counterexample:
  "attached removed = False
   \<and> have_token removed = False
   \<and> attached (snd (attach_app_cb node0 [(0, [(1, cfg_2000)])] removed)) = True
   \<and> pub_period (model (snd (attach_app_cb node0 [(0, [(1, cfg_2000)])] removed)) 0) = 2000
   \<and> armed_timers 0 (snd (attach_app_cb node0 [(0, [(1, cfg_2000)])] removed)) = [0]"
  by code_simp

text \<open>
  Claim C8, as the code has it.  \<open>remove_node_cb\<close> clears \<open>have_token\<close> and
  \<open>attached\<close> and does nothing else: no \<open>ModTimer\<close> and no timer changes, so the
  timers that were armed are still armed.
\<close>

theorem remove_node_cb_clears_flags_only:
  "have_token (remove_node_cb w) = False
   \<and> attached (remove_node_cb w) = False
   \<and> timer_store (remove_node_cb w) = timer_store w
   \<and> modtimer_store (remove_node_cb w) = modtimer_store w
   \<and> armed_timers r (remove_node_cb w) = armed_timers r w"
  by (simp add: remove_node_cb_def armed_timers_def)

text \<open>
  Claim C8 as the specification states it fails: the publication timer armed before
  \<open>remove_node_cb\<close> is armed after it.
\<close>

theorem remove_node_cb_counterexample:
  "armed_timers 0 publishing = [0]
   \<and> have_token (remove_node_cb publishing) = False
   \<and> attached (remove_node_cb publishing) = False
   \<and> armed_timers 0 (remove_node_cb publishing) = [0]"
  by code_simp


subsection \<open>The publication period\<close>








subsection \<open>The reply of an attach does not depend on the life cycle\<close>

lemma stamp_fields [simp]:
  "model_store (stamp t h a w) = model_store w"
  "modtimer_store (stamp t h a w) = modtimer_store w"
  "timer_store (stamp t h a w) = timer_store w"
  "elements (stamp t h a w) = elements w"
  "scan_txt (stamp t h a w) = scan_txt w"
  "scanned (stamp t h a w) = scanned w"
  "node (stamp t h a w) = node w"
  "calls (stamp t h a w) = calls w"
  "model (stamp t h a w) m = model w m"
  "modtimer (stamp t h a w) r = modtimer w r"
  by (simp_all add: stamp_def model_def modtimer_def)

lemma stamp_upd:
  "upd_model m f (stamp t h a w) = stamp t h a (upd_model m f w)"
  "upd_modtimer r g (stamp t h a w) = stamp t h a (upd_modtimer r g w)"
  "upd_timer x k (stamp t h a w) = stamp t h a (upd_timer x k w)"
  "(stamp t h a w)\<lparr>scanned := sc\<rparr> = stamp t h a (w\<lparr>scanned := sc\<rparr>)"
  "(stamp t h a w)\<lparr>quit_called := q\<rparr> = stamp t h a (w\<lparr>quit_called := q\<rparr>)"
  by (simp_all add: stamp_def upd_model_def upd_modtimer_def upd_timer_def)

lemma stamp_schedule_timer:
  "schedule_timer r (stamp t h a w) = stamp t h a (schedule_timer r w)"
  by (simp add: schedule_timer_def Let_def stamp_def upd_modtimer_def modtimer_def)

lemma stamp_start: "start r s f (stamp t h a w) = stamp t h a (start r s f w)"
  by (simp add: start_def Let_def stamp_upd stamp_schedule_timer)

lemma stamp_cancel: "cancel r (stamp t h a w) = stamp t h a (cancel r w)"
  by (simp add: cancel_def stamp_upd split: option.splits)

lemma stamp_MyVendor_set_publication:
  "MyVendor_set_publication m v p (stamp t h a w) = stamped t h a (MyVendor_set_publication m v p w)"
  by (simp add: MyVendor_set_publication_def Let_def stamped_def stamp_upd stamp_cancel stamp_start
      split: option.splits prod.splits)

lemma stamp_set_publication:
  "set_publication m p (stamp t h a w) = stamped t h a (set_publication m p w)"
  by (simp add: set_publication_def Model_set_publication_def stamp_MyVendor_set_publication
      stamp_upd split: option.splits) (simp add: stamped_def)

lemma stamp_and_then:
  assumes "\<And>w. f (stamp t h a w) = stamped t h a (g w)"
  shows "and_then (stamped t h a r) f = stamped t h a (and_then r g)"
  using assms by (cases r) (auto simp: and_then_def stamped_def split: option.splits)

lemma stamp_set_config:
  "set_config m cfg (stamp t h a w) = stamped t h a (set_config m cfg w)"
proof -
  let ?w1 = "case Bindings cfg of None \<Rightarrow> w
     | Some b \<Rightarrow> upd_model m (\<lambda>md. md\<lparr>bindings := b\<rparr>) w"
  let ?k = "\<lambda>w2. case Subscriptions cfg of None \<Rightarrow> (None, w2)
                  | Some subs \<Rightarrow> (print_subscriptions subs, w2)"
  have a: "(case Bindings cfg of None \<Rightarrow> stamp t h a w
     | Some b \<Rightarrow> upd_model m (\<lambda>md. md\<lparr>bindings := b\<rparr>) (stamp t h a w)) = stamp t h a ?w1"
    by (simp add: stamp_upd split: option.splits)
  have b: "(case PublicationPeriod cfg of None \<Rightarrow> (None, stamp t h a ?w1)
     | Some period \<Rightarrow> set_publication m period (stamp t h a ?w1))
     = stamped t h a (case PublicationPeriod cfg of None \<Rightarrow> (None, ?w1)
     | Some period \<Rightarrow> set_publication m period ?w1)"
    by (simp add: stamp_set_publication split: option.splits) (simp add: stamped_def)
  have c: "?k (stamp t h a w') = stamped t h a (?k w')" for w'
    by (simp add: stamped_def split: option.splits)
  show ?thesis
    unfolding set_config_def Let_def a b by (rule stamp_and_then [where f = ?k and g = ?k, OF c])
qed

lemma stamp_update_models:
  "update_models ms mid cfg (stamp t h a w) = stamped t h a (update_models ms mid cfg w)"
  by (induction ms) (simp_all add: stamp_set_config, simp add: stamped_def)

lemma stamp_set_model_config:
  "set_model_config el cfgs (stamp t h a w) = stamped t h a (set_model_config el cfgs w)"
proof (induction cfgs arbitrary: w)
  case Nil
  show ?case by (simp add: stamped_def)
next
  case (Cons c cfgs)
  have "update_model_config el (fst c) (snd c) (stamp t h a w)
      = stamped t h a (update_model_config el (fst c) (snd c) w)"
    by (simp add: update_model_config_def stamp_update_models)
  then show ?case
    by (simp add: stamp_and_then [where f = "set_model_config el cfgs"
          and g = "set_model_config el cfgs", OF Cons.IH])
qed

lemma stamp_attach_els:
  "attach_els els (stamp t h a w) = stamped t h a (attach_els els w)"
proof (induction els arbitrary: w)
  case Nil
  show ?case by (simp add: stamped_def)
next
  case (Cons el els)
  show ?case
  proof (cases "get_element (sint (fst el)) w")
    case None
    then show ?thesis by (simp add: Let_def get_element_def stamped_def)
  next
    case (Some element)
    then show ?thesis
      by (simp add: Let_def get_element_def stamp_set_model_config
            stamp_and_then [where f = "attach_els els" and g = "attach_els els", OF Cons.IH])
  qed
qed

lemma attach_after_remove:
  "attach_app_cb p d (remove_node_cb w) =
     (fst (attach_app_cb p d w), (snd (attach_app_cb p d w))\<lparr>have_token := False\<rparr>)"
proof -
  let ?w3 = "w\<lparr>attached := True, node_mgr := Some p, node := Some p\<rparr>"
  have "(remove_node_cb w)\<lparr>attached := True, node_mgr := Some p, node := Some p\<rparr>
      = stamp (token w) False True ?w3"
    by (simp add: remove_node_cb_def stamp_def)
  then have "attach_app_cb p d (remove_node_cb w) = stamped (token w) False True (attach_els d ?w3)"
    by (simp add: attach_app_cb_def Let_def stamp_attach_els)
  moreover have "lifecycle (snd (attach_els d ?w3)) = lifecycle ?w3"
    by (rule lifecycle_attach_els)
  ultimately show ?thesis
    by (simp add: attach_app_cb_def Let_def stamped_def stamp_def lifecycle_def)
qed

lemma update_models_first:
  assumes "\<forall>x \<in> set pre. model_id (model w x) \<noteq> mid" and "model_id (model w m) = mid"
  shows "update_models (pre @ m # post) mid cfg w = set_config m cfg w"
  using assms by (induction pre) auto

lemma and_then_return [simp]: "and_then r (\<lambda>w. (None, w)) = r"
  by (cases r) (simp add: and_then_def split: option.splits)

lemma and_then_None [simp]: "and_then (None, w) f = f w"
  by (simp add: and_then_def)

lemma model_store_schedule_timer [simp]:
  "model_store (schedule_timer r w) = model_store w"
  by (simp add: schedule_timer_def Let_def)

lemma model_store_start [simp]: "model_store (start r s f w) = model_store w"
  by (simp add: start_def Let_def)

lemma model_store_cancel [simp]: "model_store (cancel r w) = model_store w"
  by (simp add: cancel_def split: option.splits)

lemma set_publication_stores_period:
  assumes "m < length (model_store w)"
  shows "pub_period (model (snd (set_publication m p w)) m) = p"
    and "bindings (model (snd (set_publication m p w)) m) = bindings (model w m)"
  using assms
  by (simp_all add: set_publication_def Model_set_publication_def MyVendor_set_publication_def
        Let_def model_def split: option.splits prod.splits)

lemma set_config_stores:
  assumes "m < length (model_store w)"
  shows "PublicationPeriod cfg = Some p \<Longrightarrow> pub_period (model (snd (set_config m cfg w)) m) = p"
    and "Bindings cfg = Some bs \<Longrightarrow> bindings (model (snd (set_config m cfg w)) m) = bs"
proof -
  let ?w1 = "case Bindings cfg of None \<Rightarrow> w
     | Some b \<Rightarrow> upd_model m (\<lambda>md. md\<lparr>bindings := b\<rparr>) w"
  let ?r = "case PublicationPeriod cfg of None \<Rightarrow> (None, ?w1)
     | Some period \<Rightarrow> set_publication m period ?w1"
  have s: "snd (set_config m cfg w) = snd ?r"
    by (cases ?r) (simp add: set_config_def Let_def and_then_def split: option.splits)
  have l: "m < length (model_store ?w1)"
    using assms by (simp split: option.splits)
  show "pub_period (model (snd (set_config m cfg w)) m) = p" if "PublicationPeriod cfg = Some p"
    using that set_publication_stores_period(1) [OF l] by (simp add: s)
  show "bindings (model (snd (set_config m cfg w)) m) = bs" if "Bindings cfg = Some bs"
  proof -
    have "bindings (model ?w1 m) = bs"
      using that assms by simp
    moreover have "bindings (model (snd ?r) m) = bindings (model ?w1 m)"
    proof (cases "PublicationPeriod cfg")
      case None
      then show ?thesis by simp
    next
      case (Some q)
      then show ?thesis
        using set_publication_stores_period(2) [OF l, of q] by simp
    qed
    ultimately show ?thesis by (simp add: s)
  qed
qed


text \<open>
  Claim C5, as the code has it.  \<open>attach_app_cb\<close> has no guard on the state of the
  node.  Whatever the world was, it sets \<open>attached\<close> and leaves the token and
  \<open>have_token\<close> as they were.  After \<open>remove_node_cb\<close> it returns what it returns
  without the remove and leaves the same world, \<open>have_token\<close> apart: the entries of
  the reply are treated as in any other state.  An entry for a registered element
  whose first configuration names a registered model hands that configuration to
  \<open>set_config\<close> of the first model with the id, before the rest of the reply; when
  that is the whole reply, the period and the bindings it carries are those of the
  model afterwards.
\<close>

theorem attach_app_cb_ignores_node_state:
  "attach_app_cb node_path dict_array w =
     attach_els dict_array (w\<lparr>attached := True, node_mgr := Some node_path, node := Some node_path\<rparr>)
   \<and> attached (snd (attach_app_cb node_path dict_array w)) = True
   \<and> have_token (snd (attach_app_cb node_path dict_array w)) = have_token w
   \<and> token (snd (attach_app_cb node_path dict_array w)) = token w
   \<and> attach_app_cb node_path dict_array (remove_node_cb w) =
       (fst (attach_app_cb node_path dict_array w),
        (snd (attach_app_cb node_path dict_array w))\<lparr>have_token := False\<rparr>)
   \<and> (get_element (sint b) w = Some el \<and> models el = pre @ m # post
        \<and> (\<forall>x \<in> set pre. model_id (model w x) \<noteq> mid) \<and> model_id (model w m) = mid
        \<and> m < length (model_store w) \<longrightarrow>
       attach_app_cb node_path ((b, (mid, cfg) # mods) # els) w =
         and_then
           (set_config m cfg (w\<lparr>attached := True, node_mgr := Some node_path, node := Some node_path\<rparr>))
           (\<lambda>w'. and_then (set_model_config el mods w') (attach_els els))
       \<and> (PublicationPeriod cfg = Some period \<longrightarrow>
            pub_period (model (snd (attach_app_cb node_path [(b, [(mid, cfg)])] w)) m) = period)
       \<and> (Bindings cfg = Some bs \<longrightarrow>
            bindings (model (snd (attach_app_cb node_path [(b, [(mid, cfg)])] w)) m) = bs))"
proof -
  let ?w3 = "w\<lparr>attached := True, node_mgr := Some node_path, node := Some node_path\<rparr>"
  have a: "attach_app_cb node_path d w = attach_els d ?w3" for d
    by (simp add: attach_app_cb_def Let_def)
  have l: "attached (snd (attach_app_cb node_path dict_array w)) = True
   \<and> have_token (snd (attach_app_cb node_path dict_array w)) = have_token w
   \<and> token (snd (attach_app_cb node_path dict_array w)) = token w"
    using lifecycle_attach_els [of dict_array ?w3] by (simp add: a lifecycle_def)
  have step: "attach_app_cb node_path ((b, (mid, cfg) # mods) # els) w =
         and_then (set_config m cfg ?w3)
           (\<lambda>w'. and_then (set_model_config el mods w') (attach_els els))
       \<and> (PublicationPeriod cfg = Some period \<longrightarrow>
            pub_period (model (snd (attach_app_cb node_path [(b, [(mid, cfg)])] w)) m) = period)
       \<and> (Bindings cfg = Some bs \<longrightarrow>
            bindings (model (snd (attach_app_cb node_path [(b, [(mid, cfg)])] w)) m) = bs)"
    if h: "get_element (sint b) w = Some el" "models el = pre @ m # post"
      "\<forall>x \<in> set pre. model_id (model w x) \<noteq> mid" "model_id (model w m) = mid"
      "m < length (model_store w)"
  proof -
    have g: "get_element (sint b) ?w3 = Some el"
      using h(1) by (simp add: get_element_def)
    have mw: "model ?w3 x = model w x" for x
      by (simp add: model_def)
    have u: "update_model_config el mid cfg ?w3 = set_config m cfg ?w3"
      unfolding update_model_config_def h(2)
      by (rule update_models_first) (simp_all add: mw h)
    have first: "attach_els ((b, (mid, cfg) # mods) # els') ?w3 =
        and_then (set_config m cfg ?w3)
          (\<lambda>w'. and_then (set_model_config el mods w') (attach_els els'))" for mods els'
      using g u
      by (cases "set_config m cfg ?w3") (simp add: Let_def and_then_def split: option.splits)
    have one: "attach_els [(b, [(mid, cfg)])] ?w3 = set_config m cfg ?w3"
      using first [of "[]" "[]"] by (simp del: attach_els.simps(2))
    have lm: "m < length (model_store ?w3)"
      using h(5) by simp
    have c1: "attach_app_cb node_path ((b, (mid, cfg) # mods) # els) w =
         and_then (set_config m cfg ?w3)
           (\<lambda>w'. and_then (set_model_config el mods w') (attach_els els))"
      unfolding a by (rule first)
    have c2: "snd (attach_app_cb node_path [(b, [(mid, cfg)])] w) = snd (set_config m cfg ?w3)"
      unfolding a one ..
    have p2: "PublicationPeriod cfg = Some period \<longrightarrow>
            pub_period (model (snd (attach_app_cb node_path [(b, [(mid, cfg)])] w)) m) = period"
      unfolding c2 using set_config_stores(1) [OF lm] by blast
    have p3: "Bindings cfg = Some bs \<longrightarrow>
            bindings (model (snd (attach_app_cb node_path [(b, [(mid, cfg)])] w)) m) = bs"
      unfolding c2 using set_config_stores(2) [OF lm] by blast
    from c1 p2 p3 show ?thesis by blast
  qed
  from l step attach_after_remove [of node_path dict_array w] a [of dict_array]
  show ?thesis by blast
qed

theorem attach_app_cb_ignores_node_state_witness:
  "get_element (sint (0 :: 8 word)) removed = Some first_ele
   \<and> have_token removed = False
   \<and> attached (snd (attach_app_cb node0 [(0, [(1, cfg_2000)])] removed)) = True
   \<and> pub_period (model (snd (attach_app_cb node0 [(0, [(1, cfg_2000)])] removed)) 0) = 2000
   \<and> bindings (model (snd (attach_app_cb node0 [(0, [(1, cfg_2000)])] removed)) 0) = [0]"
proof -
  have h: "get_element (sint (0 :: 8 word)) removed = Some first_ele"
    "models first_ele = [] @ 0 # []"
    "model_id (model removed 0) = 1"
    "0 < length (model_store removed)"
    "PublicationPeriod cfg_2000 = Some 2000"
    "Bindings cfg_2000 = Some [0]"
    "have_token removed = False"
    by code_simp+
  have e: "\<forall>x \<in> set []. model_id (model removed x) \<noteq> 1"
    by simp
  from attach_app_cb_ignores_node_state [where w = removed and b = 0 and el = first_ele and pre = "[]" and m = 0
        and post = "[]" and mid = 1 and cfg = cfg_2000 and period = 2000 and bs = "[0]"
        and node_path = node0 and dict_array = "[(0, [(1, cfg_2000)])]"] h e
  show ?thesis by blast
qed


subsection \<open>A tick in two steps\<close>

lemma env_upd_modtimer [simp]:
  "node (upd_modtimer r g w) = node w"
  "calls (upd_modtimer r g w) = calls w"
  by (simp_all add: upd_modtimer_def)

lemma env_schedule_timer [simp]:
  "node (schedule_timer r w) = node w"
  "calls (schedule_timer r w) = calls w"
  "modtimer_store (schedule_timer r w) =
     (modtimer_store w)[r := (modtimer_store w ! r)\<lparr>thread := Some (length (timer_store w))\<rparr>]"
  by (simp_all add: schedule_timer_def Let_def)

lemma env_cancel [simp]:
  "node (cancel r w) = node w"
  "calls (cancel r w) = calls w"
  "length (timer_store (cancel r w)) = length (timer_store w)"
  "length (modtimer_store (cancel r w)) = length (modtimer_store w)"
  "func (modtimer (cancel r w) r') = func (modtimer w r')"
  "model (cancel r w) m = model w m"
  by (simp_all add: cancel_def model_def split: option.splits)








lemma Timer_run_steps:
  assumes "\<not> due (timer_store w ! t)" and "t < length (timer_store w)"
  shows "Timer_run t w = Timer_call t (Timer_wake t w)"
proof -
  let ?x = "timer_store w ! t"
  have r: "?x\<lparr>waiting := False, due := False\<rparr> = ?x\<lparr>waiting := False\<rparr>"
    using assms(1) by (cases ?x) simp
  have f: "upd_timer t (\<lambda>x. x\<lparr>waiting := False, due := False\<rparr>) w
      = upd_timer t (\<lambda>x. x\<lparr>waiting := False\<rparr>) w"
    unfolding upd_timer_def r ..
  have "timer_store (upd_timer t (\<lambda>x. x\<lparr>due := False\<rparr>)
          (upd_timer t (\<lambda>x. x\<lparr>waiting := False, due := True\<rparr>) w))
      = (timer_store w)[t := ?x\<lparr>waiting := False, due := False\<rparr>]"
    using assms(2) by simp
  then have u: "upd_timer t (\<lambda>x. x\<lparr>due := False\<rparr>)
          (upd_timer t (\<lambda>x. x\<lparr>waiting := False, due := True\<rparr>) w)
      = upd_timer t (\<lambda>x. x\<lparr>waiting := False\<rparr>) w"
    unfolding r by (simp add: upd_timer_def)
  show ?thesis
  proof (cases "waiting ?x")
    case False
    then show ?thesis
      using assms by (simp add: Timer_run_def Timer_wake_def Timer_call_def Let_def)
  next
    case True
    show ?thesis
    proof (cases "finished ?x")
      case True
      with \<open>waiting ?x\<close> assms show ?thesis
        by (simp add: Timer_run_def Timer_wake_def Timer_call_def Let_def f)
    next
      case False
      with \<open>waiting ?x\<close> assms show ?thesis
        by (simp add: Timer_run_def Timer_wake_def Timer_call_def Let_def u)
    qed
  qed
qed

lemma calls_update_frame [simp]:
  "modtimer (w\<lparr>calls := c\<rparr>) r = modtimer w r"
  "model (w\<lparr>calls := c\<rparr>) m = model w m"
  by (simp_all add: modtimer_def model_def)



lemma ticking_value [code]:
  "ticking =
   \<lparr>token = None, have_token = False, attached = True, input_error = False,
    node = Some ''/org/bluez/mesh/node0'',
    node_mgr = Some ''/org/bluez/mesh/node0'',
    scanned = [(''sensor'', ''-60'')],
    elements = [\<lparr>el_path = ''/example/ele00'', models = [0], index = 0\<rparr>],
    model_store =
      [\<lparr>cmd_ops = [33281, 33282, 33283, 33284], model_id = 1, vendor = 1521,
          bindings = [0], pub_period = 2000, pub_id = 0,
          path = Some ''/example/ele00'', timer = None,
          my_vendor =
            Some \<lparr>state = StateJson [(''sensor'', ''-60'')], pub_timer = 0, t_timer = 1\<rparr>\<rparr>],
    modtimer_store =
      [\<lparr>seconds = Some 2, func = Some (BoundPublish 0), thread = Some 0, busy = False\<rparr>,
       \<lparr>seconds = None, func = None, thread = None, busy = False\<rparr>],
    timer_store =
      [\<lparr>interval = Some 2, target = 0, finished = False, waiting = False, due = True\<rparr>],
    scan_txt = Some scan_example,
    numpy_strict = False, quit_called = False, calls = []\<rparr>"
  by code_simp




end
